theory Spec2Isabelle
  imports Complex_Main
begin

section \<open>Python values, dictionaries and errors\<close>

text \<open>
  The store handles JSON-like Python values: query bodies, stored records and filters are
  nested dictionaries and lists. A dictionary is an association list in insertion order;
  Python dictionaries have pairwise distinct keys, and every operation below keeps them so.
  A finite floating-point number is represented by the real number it denotes; sums of
  floats are rounded as Python rounds them.
\<close>

datatype pyval =
    PNone
  | PBool bool
  | PInt int
  | PFloat real
  | PStr string
  | PList "pyval list"
  | PDict "(string \<times> pyval) list"

type_synonym pydict = "(string \<times> pyval) list"

datatype py_error =
    KeyError string
  | ValueError string
  | RuntimeError string
  | TypeError
  | AttributeError
  | AssertionError
  | IndexError
  | JSONDecodeError

text \<open>\<^verbatim>\<open>d[k] = v\<close>: an existing key keeps its position, a new key is appended.\<close>

fun dict_set :: "('k \<times> 'v) list \<Rightarrow> 'k \<Rightarrow> 'v \<Rightarrow> ('k \<times> 'v) list" where
  "dict_set [] k v = [(k, v)]"
| "dict_set (p # d) k v = (if fst p = k then (k, v) # d else p # dict_set d k v)"

text \<open>\<^verbatim>\<open>d.pop(k, None)\<close>, as far as the dictionary is concerned.\<close>

definition dict_del :: "('k \<times> 'v) list \<Rightarrow> 'k \<Rightarrow> ('k \<times> 'v) list" where
  "dict_del d k = filter (\<lambda>p. fst p \<noteq> k) d"

text \<open>\<^verbatim>\<open>for k, v in items: d[k] = v\<close>, also the unpacking \<^verbatim>\<open>{**d, **items}\<close>.\<close>

definition dict_update :: "('k \<times> 'v) list \<Rightarrow> ('k \<times> 'v) list \<Rightarrow> ('k \<times> 'v) list" where
  "dict_update d items = foldl (\<lambda>acc p. dict_set acc (fst p) (snd p)) d items"

text \<open>\<^verbatim>\<open>d.get(k)\<close>, where the key itself may be \<^verbatim>\<open>None\<close> (never a key of a stored record).\<close>

definition py_get :: "pydict \<Rightarrow> string option \<Rightarrow> pyval" where
  "py_get d k =
     (case k of
        None \<Rightarrow> PNone
      | Some k' \<Rightarrow> (case map_of d k' of None \<Rightarrow> PNone | Some v \<Rightarrow> v))"

text \<open>\<^verbatim>\<open>b[k] = v\<close> on an arbitrary value: only a dictionary accepts a string key.\<close>

definition set_item :: "pyval \<Rightarrow> string \<Rightarrow> pyval \<Rightarrow> py_error + pyval" where
  "set_item b k v = (case b of PDict d \<Rightarrow> Inr (PDict (dict_set d k v)) | _ \<Rightarrow> Inl TypeError)"

text \<open>
  \<^verbatim>\<open>b[p1]...[pn][k] = v\<close>: each \<^verbatim>\<open>[p]\<close> is a lookup that raises \<^verbatim>\<open>KeyError\<close> on a
  missing key; the assignment mutates the innermost dictionary, which the functional model
  writes back along the path.
\<close>

fun set_nested :: "string list \<Rightarrow> string \<Rightarrow> pyval \<Rightarrow> pyval \<Rightarrow> py_error + pyval" where
  "set_nested [] k v b = set_item b k v"
| "set_nested (p # ps) k v (PDict d) =
     (case map_of d p of
        None \<Rightarrow> Inl (KeyError p)
      | Some sub \<Rightarrow>
          (case set_nested ps k v sub of
             Inl e \<Rightarrow> Inl e
           | Inr sub' \<Rightarrow> Inr (PDict (dict_set d p sub'))))"
| "set_nested (p # ps) k v b = Inl TypeError"


text \<open>Truthiness of an optional string, list or dictionary: neither \<^verbatim>\<open>None\<close> nor empty.\<close>

definition truthy :: "'a list option \<Rightarrow> bool" where
  "truthy x = (case x of None \<Rightarrow> False | Some xs \<Rightarrow> xs \<noteq> [])"

text \<open>\<^verbatim>\<open>type(values) != list\<close>\<close>

fun is_list :: "pyval \<Rightarrow> bool" where
  "is_list (PList xs) = True"
| "is_list v = False"

text \<open>The first error of a list comprehension or loop aborts it.\<close>

fun collect :: "('e + 'a) list \<Rightarrow> 'e + 'a list" where
  "collect [] = Inr []"
| "collect (x # xs) =
     (case x of
        Inl e \<Rightarrow> Inl e
      | Inr y \<Rightarrow> (case collect xs of Inl e \<Rightarrow> Inl e | Inr ys \<Rightarrow> Inr (y # ys)))"

subsection \<open>\<^verbatim>\<open>str\<close> of an integer\<close>

definition digit_char :: "nat \<Rightarrow> char" where
  "digit_char n = ''0123456789'' ! n"

function str_nat :: "nat \<Rightarrow> string" where
  "str_nat n = (if n < 10 then [digit_char n] else str_nat (n div 10) @ [digit_char (n mod 10)])"
  by pat_completeness auto
termination
  by (relation "measure id") auto

definition str_int :: "int \<Rightarrow> string" where
  "str_int i = (if i < 0 then CHR ''-'' # str_nat (nat (- i)) else str_nat (nat i))"

text \<open>
  \<^verbatim>\<open>str(x)\<close> as the store uses it: on document ids (strings, or UUIDs given by their
  canonical string) and on integers.
\<close>

fun py_str :: "pyval \<Rightarrow> string" where
  "py_str (PStr s) = s"
| "py_str (PInt i) = str_int i"
| "py_str PNone = ''None''"
| "py_str (PBool b) = (if b then ''True'' else ''False'')"

subsection \<open>Floating-point addition\<close>

text \<open>
  Python floats are IEEE 754 binary64 numbers. A finite float is represented by the real
  number it denotes, and the sum of two floats is the exact sum rounded to the nearest
  binary64 number, ties to the even significand: 53 significant bits, the exponent of the
  subnormal numbers fixed at -1022. In \<^verbatim>\<open>x + i\<close> with an integer \<^verbatim>\<open>i\<close> the integer is
  converted to a float first. Sums beyond the largest float (they become infinite) are
  outside the model; the store adds 0 or -1 to a score.
\<close>

definition round_half_even :: "real \<Rightarrow> int" where
  "round_half_even y =
     (let f = \<lfloor>y\<rfloor>; d = y - of_int f
      in if d < 1 / 2 then f else if 1 / 2 < d then f + 1 else if even f then f else f + 1)"

definition double_round :: "real \<Rightarrow> real" where
  "double_round x =
     (if x = 0 then 0
      else (let e = max \<lfloor>log 2 \<bar>x\<bar>\<rfloor> (- 1022);
                u = 2 powr of_int (e - 52)
            in of_int (round_half_even (x / u)) * u))"

definition py_float_add_int :: "real \<Rightarrow> int \<Rightarrow> real" where
  "py_float_add_int x i = double_round (x + double_round (of_int i))"

section \<open>Configuration, documents, labels and the engine\<close>

text \<open>The attributes \<^verbatim>\<open>__init__\<close> stores on the store object.\<close>

record es_config =
  index :: string
  label_index :: string
  search_fields :: "string list"
  text_field :: string
  name_field :: string
  embedding_field :: "string option"
  embedding_dim :: int
  custom_mapping :: "pydict option"
  excluded_meta_data :: "string list option"
  faq_question_field :: "string option"

text \<open>The defaults of \<^verbatim>\<open>__init__\<close>.\<close>

definition default_config :: es_config where
  "default_config =
     \<lparr>index = ''document'', label_index = ''label'', search_fields = [''text''],
      text_field = ''text'', name_field = ''name'', embedding_field = Some ''embedding'',
      embedding_dim = 768, custom_mapping = None, excluded_meta_data = None,
      faq_question_field = None\<rparr>"

text \<open>
  Modelled from the spec: the \<^verbatim>\<open>Document\<close> class of \<^verbatim>\<open>haystack.database.base\<close>, which is
  not part of the sources at hand. The spec gives its attributes: id, text, meta, embedding,
  question, tags and query\_score; \<^verbatim>\<open>to_dict\<close> lists them.
\<close>

record document =
  doc_id :: string
  doc_text :: pyval
  doc_meta :: pyval
  doc_embedding :: pyval
  doc_question :: pyval
  doc_tags :: pyval
  doc_query_score :: "real option"

definition to_dict :: "document \<Rightarrow> pydict" where
  "to_dict d =
     [(''id'', PStr (doc_id d)), (''text'', doc_text d), (''meta'', doc_meta d),
      (''embedding'', doc_embedding d), (''question'', doc_question d), (''tags'', doc_tags d),
      (''query_score'', (case doc_query_score d of None \<Rightarrow> PNone | Some s \<Rightarrow> PFloat s))]"

text \<open>
  Modelled from the spec: the \<^verbatim>\<open>Label\<close> class of \<^verbatim>\<open>haystack.database.base\<close>, with the ten
  attributes the spec and the label index mapping name.
\<close>

record label =
  lbl_question :: string
  lbl_answer :: string
  lbl_is_correct_answer :: bool
  lbl_is_correct_document :: bool
  lbl_origin :: string
  lbl_document_id :: string
  lbl_offset_start_in_doc :: int
  lbl_no_answer :: bool
  lbl_model_id :: string
  lbl_type :: string

definition label_to_dict :: "label \<Rightarrow> pydict" where
  "label_to_dict l =
     [(''question'', PStr (lbl_question l)), (''answer'', PStr (lbl_answer l)),
      (''is_correct_answer'', PBool (lbl_is_correct_answer l)),
      (''is_correct_document'', PBool (lbl_is_correct_document l)),
      (''origin'', PStr (lbl_origin l)), (''document_id'', PStr (lbl_document_id l)),
      (''offset_start_in_doc'', PInt (lbl_offset_start_in_doc l)),
      (''no_answer'', PBool (lbl_no_answer l)), (''model_id'', PStr (lbl_model_id l)),
      (''type'', PStr (lbl_type l))]"

text \<open>
  One hit of a search response: \<^verbatim>\<open>hit["_id"]\<close>, \<^verbatim>\<open>hit["_score"]\<close> (\<^verbatim>\<open>None\<close> when the engine
  reports no score) and \<^verbatim>\<open>hit["_source"]\<close>.
\<close>

record es_hit =
  hit_id :: string
  hit_score :: "real option"
  hit_source :: pydict

text \<open>
  The requests the store sends through the client, in the order they are sent:
  \<^item> \<^verbatim>\<open>client.indices.create(index, ignore=400, body)\<close>
  \<^item> \<^verbatim>\<open>client.indices.exists(index)\<close>
  \<^item> \<^verbatim>\<open>client.search(index, body)\<close> with its optional \<^verbatim>\<open>request_timeout\<close>
  \<^item> \<^verbatim>\<open>scan(client, query, index)\<close>
  \<^item> \<^verbatim>\<open>bulk(client, actions, request_timeout)\<close> with its optional \<^verbatim>\<open>refresh\<close>
\<close>

datatype es_call =
    IndicesCreate string pyval
  | IndicesExists string
  | Search string pyval "nat option"
  | Scan string pyval
  | Bulk "pyval list" nat "string option"

text \<open>
  What the engine answers: whether an index exists, and the hits of a search or scan.
  Transport failures are outside the model.
\<close>

record es_client =
  indices_exists :: "string \<Rightarrow> bool"
  search_hits :: "string \<Rightarrow> pyval \<Rightarrow> es_hit list"
  scan_hits :: "string \<Rightarrow> pyval \<Rightarrow> es_hit list"

text \<open>
  The standard-library functions that the custom-query path calls: \<^verbatim>\<open>Template(t).substitute\<close>,
  \<^verbatim>\<open>json.dumps\<close> and \<^verbatim>\<open>json.loads\<close>. They are parameters of the model.
\<close>

record py_lib =
  template_substitute :: "string \<Rightarrow> (string \<times> string) list \<Rightarrow> py_error + string"
  json_dumps :: "pyval \<Rightarrow> string"
  json_loads :: "string \<Rightarrow> py_error + pyval"

section \<open>Index lifecycle\<close>

definition create_document_index :: "es_config \<Rightarrow> string \<Rightarrow> es_call" where
  "create_document_index cfg index_name =
     (let mapping =
        (if truthy (custom_mapping cfg) then PDict (the (custom_mapping cfg))
         else
           (let properties =
                  dict_set [(name_field cfg, PDict [(''type'', PStr ''text'')])]
                    (text_field cfg) (PDict [(''type'', PStr ''text'')]);
                properties' =
                  (if truthy (embedding_field cfg)
                   then dict_set properties (the (embedding_field cfg))
                          (PDict [(''type'', PStr ''dense_vector''),
                                  (''dims'', PInt (embedding_dim cfg))])
                   else properties)
            in PDict [(''mappings'', PDict [(''properties'', PDict properties')])]))
      in IndicesCreate index_name mapping)"

definition create_label_index :: "string \<Rightarrow> es_call" where
  "create_label_index index_name =
     IndicesCreate index_name
       (PDict [(''mappings'', PDict [(''properties'', PDict
          [(''question'', PDict [(''type'', PStr ''text'')]),
           (''answer'', PDict [(''type'', PStr ''text'')]),
           (''is_correct_answer'', PDict [(''type'', PStr ''boolean'')]),
           (''is_correct_document'', PDict [(''type'', PStr ''boolean'')]),
           (''origin'', PDict [(''type'', PStr ''keyword'')]),
           (''document_id'', PDict [(''type'', PStr ''keyword'')]),
           (''offset_start_in_doc'', PDict [(''type'', PStr ''long'')]),
           (''no_answer'', PDict [(''type'', PStr ''boolean'')]),
           (''model_id'', PDict [(''type'', PStr ''keyword'')]),
           (''type'', PDict [(''type'', PStr ''keyword'')])])])])"

section \<open>Write pipeline\<close>

text \<open>The body of the loop of \<^verbatim>\<open>write_documents\<close>: the bulk record of one document.\<close>

definition document_to_index :: "string \<Rightarrow> document \<Rightarrow> py_error + pydict" where
  "document_to_index idx doc =
     (let d0 = dict_update [(''_op_type'', PStr ''create''), (''_index'', PStr idx)] (to_dict doc)
      in case map_of d0 ''id'' of
           None \<Rightarrow> Inl (KeyError ''id'')
         | Some i \<Rightarrow>
             (let d1 = dict_set (dict_del d0 ''id'') ''_id'' (PStr (py_str i));
                  d2 = dict_del d1 ''query_score'';
                  d3 = filter (\<lambda>p. snd p \<noteq> PNone) d2
              in case map_of d3 ''meta'' of
                   None \<Rightarrow> Inr d3
                 | Some (PDict m) \<Rightarrow> Inr (dict_del (dict_update d3 m) ''meta'')
                 | Some other \<Rightarrow> Inl AttributeError))"

text \<open>
  \<^verbatim>\<open>write_documents\<close> on documents that are \<^verbatim>\<open>Document\<close> objects already. The result is the
  list of requests sent and the outcome.
\<close>

definition write_documents ::
  "es_config \<Rightarrow> es_client \<Rightarrow> document list \<Rightarrow> string option \<Rightarrow> es_call list \<times> (py_error + unit)"
where
  "write_documents cfg client documents index_arg =
     (let pre =
            (if truthy index_arg
             then (if indices_exists client (the index_arg)
                   then [IndicesExists (the index_arg)]
                   else [IndicesExists (the index_arg),
                         create_document_index cfg (the index_arg)])
             else []);
          idx = (case index_arg of None \<Rightarrow> index cfg | Some i \<Rightarrow> i)
      in case collect (map (document_to_index idx) documents) of
           Inl e \<Rightarrow> (pre, Inl e)
         | Inr documents_to_index \<Rightarrow>
             (pre @ [Bulk (map PDict documents_to_index) 300 (Some ''wait_for'')], Inr ()))"

definition label_to_index :: "string option \<Rightarrow> label \<Rightarrow> pydict" where
  "label_to_index index_arg l =
     dict_update
       [(''_op_type'', PStr ''create''),
        (''_index'', (case index_arg of None \<Rightarrow> PNone | Some i \<Rightarrow> PStr i))]
       (label_to_dict l)"

definition write_labels ::
  "es_config \<Rightarrow> es_client \<Rightarrow> label list \<Rightarrow> string option \<Rightarrow> es_call list \<times> (py_error + unit)"
where
  "write_labels cfg client labels index_arg =
     (let pre =
            (if truthy index_arg
             then (if indices_exists client (the index_arg)
                   then [IndicesExists (the index_arg)]
                   else [IndicesExists (the index_arg), create_label_index (the index_arg)])
             else [])
      in (pre @ [Bulk (map (\<lambda>l. PDict (label_to_index index_arg l)) labels) 300
                   (Some ''wait_for'')],
          Inr ()))"

text \<open>A call of \<^verbatim>\<open>write_labels\<close> without the \<^verbatim>\<open>index\<close> argument takes the default of the signature.\<close>

definition write_labels_default ::
  "es_config \<Rightarrow> es_client \<Rightarrow> label list \<Rightarrow> es_call list \<times> (py_error + unit)"
where
  "write_labels_default cfg client labels = write_labels cfg client labels (Some ''label'')"

section \<open>Query engine\<close>

definition convert_es_hit_to_document :: "es_config \<Rightarrow> es_hit \<Rightarrow> int \<Rightarrow> document" where
  "convert_es_hit_to_document cfg hit score_adjustment =
     (let meta_data =
            filter (\<lambda>p. fst p \<noteq> text_field cfg \<and> Some (fst p) \<noteq> faq_question_field cfg \<and>
                        Some (fst p) \<noteq> embedding_field cfg \<and> fst p \<noteq> ''tags'')
              (hit_source hit);
          popped = py_get meta_data (Some (name_field cfg));
          meta_data' = dict_set (dict_del meta_data (name_field cfg)) ''name'' popped
      in \<lparr>doc_id = hit_id hit,
          doc_text = py_get (hit_source hit) (Some (text_field cfg)),
          doc_meta = PDict meta_data',
          doc_embedding = py_get (hit_source hit) (embedding_field cfg),
          doc_question = py_get (hit_source hit) (faq_question_field cfg),
          doc_tags = py_get (hit_source hit) (Some ''tags''),
          doc_query_score =
            (case hit_score hit of
               None \<Rightarrow> None
             | Some s \<Rightarrow> if s = 0 then None else Some (py_float_add_int s score_adjustment))\<rparr>)"

text \<open>The list of \<^verbatim>\<open>{"terms": {key: values}}\<close> clauses, one per filter.\<close>

definition terms_clauses :: "pydict \<Rightarrow> pyval" where
  "terms_clauses filters =
     PList (map (\<lambda>p. PDict [(''terms'', PDict [(fst p, snd p)])]) filters)"

definition match_all_body :: "pydict option \<Rightarrow> py_error + pyval" where
  "match_all_body filters =
     (let body = PDict [(''query'', PDict [(''bool'', PDict
                   [(''must'', PDict [(''match_all'', PDict [])])])])]
      in if truthy filters
         then set_nested [''query'', ''bool''] ''filter'' (terms_clauses (the filters)) body
         else Inr body)"

text \<open>The mapping handed to the template: the question first, then one entry per filter.\<close>

definition substitutions :: "py_lib \<Rightarrow> string \<Rightarrow> pydict option \<Rightarrow> (string \<times> string) list" where
  "substitutions lib query_text filters =
     (if truthy filters
      then dict_update [(''question'', query_text)]
             (map (\<lambda>p. (fst p, json_dumps lib (snd p))) (the filters))
      else [(''question'', query_text)])"

definition custom_body ::
  "py_lib \<Rightarrow> string \<Rightarrow> string \<Rightarrow> pydict option \<Rightarrow> int \<Rightarrow> py_error + pyval"
where
  "custom_body lib custom_query query_text filters top_k =
     (case template_substitute lib custom_query (substitutions lib query_text filters) of
        Inl e \<Rightarrow> Inl e
      | Inr custom_query_json \<Rightarrow>
          (case json_loads lib custom_query_json of
             Inl e \<Rightarrow> Inl e
           | Inr body \<Rightarrow> set_item body ''size'' (PStr (str_int top_k))))"

definition wrong_filter_format :: "string \<Rightarrow> py_error" where
  "wrong_filter_format key =
     ValueError (''Wrong filter format for key \"'' @ key @
       ''\": Please provide a list of allowed values for each key. '' @
       ''Example: {\"name\": [\"some\", \"more\"], \"category\": [\"only_one\"]} '')"

text \<open>The filter loop of the default path: the first value that is no list raises.\<close>

fun checked_terms :: "pydict \<Rightarrow> py_error + pyval list" where
  "checked_terms [] = Inr []"
| "checked_terms (p # ps) =
     (if \<not> is_list (snd p) then Inl (wrong_filter_format (fst p))
      else (case checked_terms ps of
              Inl e \<Rightarrow> Inl e
            | Inr cs \<Rightarrow> Inr (PDict [(''terms'', PDict [(fst p, snd p)])] # cs)))"

definition default_body ::
  "es_config \<Rightarrow> string \<Rightarrow> pydict option \<Rightarrow> int \<Rightarrow> py_error + pyval"
where
  "default_body cfg query_text filters top_k =
     (let body = PDict
            [(''size'', PStr (str_int top_k)),
             (''query'', PDict [(''bool'', PDict [(''should'', PList [PDict [(''multi_match'',
                PDict [(''query'', PStr query_text), (''type'', PStr ''most_fields''),
                       (''fields'', PList (map PStr (search_fields cfg)))])]])])])]
      in if truthy filters
         then (case checked_terms (the filters) of
                 Inl e \<Rightarrow> Inl e
               | Inr filter_clause \<Rightarrow>
                   set_nested [''query'', ''bool''] ''filter'' (PList filter_clause) body)
         else Inr body)"

text \<open>\<^verbatim>\<open>if self.excluded_meta_data: body["_source"] = {"excludes": self.excluded_meta_data}\<close>\<close>

definition add_excludes :: "es_config \<Rightarrow> pyval \<Rightarrow> py_error + pyval" where
  "add_excludes cfg body =
     (if truthy (excluded_meta_data cfg)
      then set_item body ''_source''
             (PDict [(''excludes'', PList (map PStr (the (excluded_meta_data cfg))))])
      else Inr body)"

text \<open>The query body of \<^verbatim>\<open>query\<close>, up to the point where the search request is sent.\<close>

definition query_body ::
  "py_lib \<Rightarrow> es_config \<Rightarrow> string option \<Rightarrow> pydict option \<Rightarrow> int \<Rightarrow> string option \<Rightarrow>
   py_error + pyval"
where
  "query_body lib cfg query_arg filters top_k custom_query =
     (case (case query_arg of
              None \<Rightarrow> match_all_body filters
            | Some query_text \<Rightarrow>
                if truthy custom_query
                then custom_body lib (the custom_query) query_text filters top_k
                else default_body cfg query_text filters top_k) of
        Inl e \<Rightarrow> Inl e
      | Inr body \<Rightarrow> add_excludes cfg body)"

definition query ::
  "py_lib \<Rightarrow> es_config \<Rightarrow> es_client \<Rightarrow> string option \<Rightarrow> pydict option \<Rightarrow> int \<Rightarrow>
   string option \<Rightarrow> string option \<Rightarrow> es_call list \<times> (py_error + document list)"
where
  "query lib cfg client query_arg filters top_k custom_query index_arg =
     (let idx = (case index_arg of None \<Rightarrow> index cfg | Some i \<Rightarrow> i)
      in case query_body lib cfg query_arg filters top_k custom_query of
           Inl e \<Rightarrow> ([], Inl e)
         | Inr body \<Rightarrow>
             ([Search idx body None],
              Inr (map (\<lambda>hit. convert_es_hit_to_document cfg hit 0)
                     (search_hits client idx body))))"

definition embedding_body :: "es_config \<Rightarrow> real list \<Rightarrow> pydict option \<Rightarrow> int \<Rightarrow> py_error + pyval"
where
  "embedding_body cfg query_emb filters top_k =
     (let body = PDict
            [(''size'', PInt top_k),
             (''query'', PDict [(''script_score'', PDict
                [(''query'', PDict [(''match_all'', PDict [])]),
                 (''script'', PDict
                    [(''source'', PStr (''cosineSimilarity(params.query_vector,doc['' @
                        [CHR 0x27] @ the (embedding_field cfg) @ [CHR 0x27] @ '']) + 1.0'')),
                     (''params'', PDict
                        [(''query_vector'', PList (map PFloat query_emb))])])])])]
      in case (if truthy filters
               then set_nested [''query'', ''bool''] ''filter'' (terms_clauses (the filters)) body
               else Inr body) of
           Inl e \<Rightarrow> Inl e
         | Inr body' \<Rightarrow> add_excludes cfg body')"

definition query_by_embedding ::
  "es_config \<Rightarrow> es_client \<Rightarrow> real list \<Rightarrow> pydict option \<Rightarrow> int \<Rightarrow> string option \<Rightarrow>
   es_call list \<times> (py_error + document list)"
where
  "query_by_embedding cfg client query_emb filters top_k index_arg =
     (let idx = (case index_arg of None \<Rightarrow> index cfg | Some i \<Rightarrow> i)
      in if \<not> truthy (embedding_field cfg)
         then ([], Inl (RuntimeError
                 ''Please specify arg `embedding_field` in ElasticsearchDocumentStore()''))
         else (case embedding_body cfg query_emb filters top_k of
                 Inl e \<Rightarrow> ([], Inl e)
               | Inr body \<Rightarrow>
                   ([Search idx body (Some 300)],
                    Inr (map (\<lambda>hit. convert_es_hit_to_document cfg hit (- 1))
                           (search_hits client idx body)))))"

section \<open>Full scan and embedding refresh\<close>

text \<open>
  \<^verbatim>\<open>get_all_documents_in_index\<close>: the match-all body with the filter clauses, handed to
  \<^verbatim>\<open>scan\<close>; the hits are what the scan yields once it is iterated.
\<close>

definition get_all_documents_in_index ::
  "es_client \<Rightarrow> string \<Rightarrow> pydict option \<Rightarrow> es_call list \<times> (py_error + es_hit list)"
where
  "get_all_documents_in_index client idx filters =
     (case match_all_body filters of
        Inl e \<Rightarrow> ([], Inl e)
      | Inr body \<Rightarrow> ([Scan idx body], Inr (scan_hits client idx body)))"

definition get_all_documents ::
  "es_config \<Rightarrow> es_client \<Rightarrow> string option \<Rightarrow> pydict option \<Rightarrow>
   es_call list \<times> (py_error + document list)"
where
  "get_all_documents cfg client index_arg filters =
     (let idx = (case index_arg of None \<Rightarrow> index cfg | Some i \<Rightarrow> i)
      in case get_all_documents_in_index client idx filters of
           (calls, Inl e) \<Rightarrow> (calls, Inl e)
         | (calls, Inr result) \<Rightarrow>
             (calls, Inr (map (\<lambda>hit. convert_es_hit_to_document cfg hit 0) result)))"

definition dim_mismatch :: "nat \<Rightarrow> int \<Rightarrow> py_error" where
  "dim_mismatch model_dim store_dim =
     RuntimeError (''Embedding dim. of model ('' @ str_int (int model_dim) @ '')'' @
       '' doesn't match embedding dim. in documentstore ('' @ str_int store_dim @ '').'' @
       ''Specify the arg `embedding_dim` when initializing ElasticsearchDocumentStore()'')"

text \<open>The update record of one document and its new embedding.\<close>

definition embedding_update :: "es_config \<Rightarrow> string \<Rightarrow> document \<times> real list \<Rightarrow> pyval" where
  "embedding_update cfg idx de =
     PDict [(''_op_type'', PStr ''update''), (''_index'', PStr idx),
            (''_id'', PStr (doc_id (fst de))),
            (''doc'', PDict [(the (embedding_field cfg), PList (map PFloat (snd de)))])]"

text \<open>
  \<^verbatim>\<open>update_embeddings\<close>; \<^verbatim>\<open>embed_passages\<close> is the retriever's method, from the texts of the
  documents to their vectors.
\<close>

definition update_embeddings ::
  "es_config \<Rightarrow> es_client \<Rightarrow> (pyval list \<Rightarrow> real list list) \<Rightarrow> string option \<Rightarrow>
   es_call list \<times> (py_error + unit)"
where
  "update_embeddings cfg client embed_passages index_arg =
     (let idx = (case index_arg of None \<Rightarrow> index cfg | Some i \<Rightarrow> i)
      in if \<not> truthy (embedding_field cfg)
         then ([], Inl (RuntimeError
                 ''Specify the arg `embedding_field` when initializing ElasticsearchDocumentStore()''))
         else (case get_all_documents cfg client (Some idx) None of
                 (calls, Inl e) \<Rightarrow> (calls, Inl e)
               | (calls, Inr docs) \<Rightarrow>
                   (let passages = map doc_text docs;
                        embeddings = embed_passages passages
                    in if length docs \<noteq> length embeddings then (calls, Inl AssertionError)
                       else (case embeddings of
                               [] \<Rightarrow> (calls, Inl IndexError)
                             | e0 # rest \<Rightarrow>
                                 if int (length e0) \<noteq> embedding_dim cfg
                                 then (calls, Inl (dim_mismatch (length e0) (embedding_dim cfg)))
                                 else (calls @ [Bulk (map (embedding_update cfg idx)
                                                        (zip docs embeddings)) 300 None],
                                       Inr ())))))"

section \<open>Example data\<close>

text \<open>
  The custom-query example of the spec: a template with the placeholders \<^verbatim>\<open>${question}\<close> and
  \<^verbatim>\<open>${year}\<close>, the query text \<^verbatim>\<open>cats\<close> and the filter \<^verbatim>\<open>{"year": [2020]}\<close>; and a second
  template with the placeholder \<^verbatim>\<open>${question}\<close> only. The sample library tabulates
  \<^verbatim>\<open>Template.substitute\<close> on these two templates, \<^verbatim>\<open>json.dumps\<close> on the list \<^verbatim>\<open>[2020]\<close> and
  \<^verbatim>\<open>json.loads\<close> on the two strings the examples reach; its answers elsewhere are arbitrary.
\<close>

definition sample_template :: string where
  "sample_template =
     ''{\"query\": {\"bool\": {\"must\": {\"match\": {\"text\": \"${question}\"}}, '' @
     ''\"filter\": {\"terms\": {\"year\": ${year}}}}}}''"

definition sample_query_json :: string where
  "sample_query_json =
     ''{\"query\": {\"bool\": {\"must\": {\"match\": {\"text\": \"cats\"}}, '' @
     ''\"filter\": {\"terms\": {\"year\": [2020]}}}}}''"

definition sample_text_template :: string where
  "sample_text_template = ''{\"query\": {\"match\": {\"text\": \"${question}\"}}}''"

definition sample_lib :: py_lib where
  "sample_lib =
     \<lparr>template_substitute =
        (\<lambda>t m. if t = sample_template
               then (case map_of m ''question'' of
                       None \<Rightarrow> Inl (KeyError ''question'')
                     | Some q \<Rightarrow>
                         (case map_of m ''year'' of
                            None \<Rightarrow> Inl (KeyError ''year'')
                          | Some y \<Rightarrow>
                              Inr (''{\"query\": {\"bool\": {\"must\": {\"match\": {\"text\": \"'' @ q @
                                   ''\"}}, \"filter\": {\"terms\": {\"year\": '' @ y @ ''}}}}}'')))
               else if t = sample_text_template
               then (case map_of m ''question'' of
                       None \<Rightarrow> Inl (KeyError ''question'')
                     | Some q \<Rightarrow> Inr (''{\"query\": {\"match\": {\"text\": \"'' @ q @ ''\"}}}''))
               else Inl (ValueError ''not tabulated'')),
      json_dumps = (\<lambda>v. if v = PList [PInt 2020] then ''[2020]'' else ''null''),
      json_loads =
        (\<lambda>s. if s = sample_query_json
             then Inr (PDict [(''query'', PDict [(''bool'', PDict
                    [(''must'', PDict [(''match'', PDict [(''text'', PStr ''cats'')])]),
                     (''filter'', PDict [(''terms'', PDict
                        [(''year'', PList [PInt 2020])])])])])])
             else if s = ''{\"query\": {\"match\": {\"text\": \"[2020]\"}}}''
             then Inr (PDict [(''query'', PDict [(''match'', PDict
                    [(''text'', PStr ''[2020]'')])])])
             else Inl JSONDecodeError)\<rparr>"

text \<open>An engine that holds three documents and reports the scores 2, 0 and none.\<close>

definition sample_hits :: "es_hit list" where
  "sample_hits =
     [\<lparr>hit_id = ''a'', hit_score = Some 2,
       hit_source = [(''text'', PStr ''cats purr''), (''name'', PStr ''cats.txt''),
                     (''year'', PInt 2020), (''embedding'', PList [PFloat 1, PFloat 0])]\<rparr>,
      \<lparr>hit_id = ''b'', hit_score = Some 0,
       hit_source = [(''text'', PStr ''dogs bark''), (''tags'', PList [PStr ''pets''])]\<rparr>,
      \<lparr>hit_id = ''c'', hit_score = None, hit_source = [(''text'', PStr ''fish'')]\<rparr>]"

definition sample_client :: es_client where
  "sample_client =
     \<lparr>indices_exists = (\<lambda>i. i = ''document''),
      search_hits = (\<lambda>i body. sample_hits),
      scan_hits = (\<lambda>i body. sample_hits)\<rparr>"




section \<open>Facts about dictionaries\<close>

lemma map_of_dict_set: "map_of (dict_set d k v) = (map_of d)(k \<mapsto> v)"
  by (induction d) (auto simp: fun_eq_iff)

lemma map_of_dict_del: "map_of (dict_del d k) = (map_of d)(k := None)"
  by (induction d) (auto simp: dict_del_def fun_eq_iff)

lemma map_of_dict_update: "map_of (dict_update d items) = map_of d ++ map_of (rev items)"
proof (induction items arbitrary: d)
  case Nil
  show ?case by (simp add: dict_update_def)
next
  case (Cons p ps)
  have "dict_update d (p # ps) = dict_update (dict_set d (fst p) (snd p)) ps"
    by (simp add: dict_update_def)
  then show ?case
    using Cons.IH [of "dict_set d (fst p) (snd p)"]
    by (cases p) (auto simp: map_of_dict_set fun_eq_iff map_add_def split: option.splits)
qed

lemma keys_dict_set: "fst ` set (dict_set d k v) = insert k (fst ` set d)"
  by (induction d) auto

lemma distinct_dict_set: "distinct (map fst d) \<Longrightarrow> distinct (map fst (dict_set d k v))"
proof (induction d)
  case Nil
  show ?case by simp
next
  case (Cons p d)
  have "fst ` set (dict_set d k v) = insert k (fst ` set d)"
    by (rule keys_dict_set)
  with Cons show ?case by auto
qed

lemma distinct_dict_del: "distinct (map fst d) \<Longrightarrow> distinct (map fst (dict_del d k))"
  by (simp add: dict_del_def distinct_map_filter)

lemma set_dict_set: "set (dict_set d k v) \<subseteq> insert (k, v) (set d)"
  by (induction d) auto

lemma set_dict_update: "set (dict_update d items) \<subseteq> set d \<union> set items"
proof (induction items arbitrary: d)
  case Nil
  show ?case by (simp add: dict_update_def)
next
  case (Cons p ps)
  have "dict_update d (p # ps) = dict_update (dict_set d (fst p) (snd p)) ps"
    by (simp add: dict_update_def)
  moreover have "set (dict_set d (fst p) (snd p)) \<subseteq> insert p (set d)"
    using set_dict_set [of d "fst p" "snd p"] by simp
  ultimately show ?case
    using Cons.IH [of "dict_set d (fst p) (snd p)"] by auto
qed

lemma map_of_rev_distinct: "distinct (map fst xs) \<Longrightarrow> map_of (rev xs) = map_of xs"
proof (rule ext)
  fix k
  assume d: "distinct (map fst xs)"
  then have dr: "distinct (map fst (rev xs))"
    by (simp add: rev_map [symmetric])
  show "map_of (rev xs) k = map_of xs k"
  proof (cases "map_of xs k")
    case None
    then have "k \<notin> fst ` set xs" by (simp add: map_of_eq_None_iff)
    then have "map_of (rev xs) k = None" by (simp add: map_of_eq_None_iff)
    with None show ?thesis by simp
  next
    case (Some v)
    then have "(k, v) \<in> set xs" by (rule map_of_SomeD)
    then have "(k, v) \<in> set (rev xs)" by simp
    with dr have "map_of (rev xs) k = Some v" by (rule map_of_is_SomeI)
    with Some show ?thesis by simp
  qed
qed

lemma map_of_filter_keys:
  "map_of (filter (\<lambda>p. P (fst p)) d) k = (if P k then map_of d k else None)"
  by (induction d) auto

section \<open>Filter validation\<close>

text \<open>
  The filter loop of the keyword-relevance path accepts a filter mapping whose values are all
  lists, and otherwise raises the format error for a key whose value is no list.
\<close>

lemma checked_terms_lists:
  "list_all (\<lambda>p. is_list (snd p)) fs \<Longrightarrow>
   checked_terms fs = Inr (map (\<lambda>p. PDict [(''terms'', PDict [(fst p, snd p)])]) fs)"
  by (induction fs) auto

lemma checked_terms_rejects:
  "\<not> list_all (\<lambda>p. is_list (snd p)) fs \<Longrightarrow>
   \<exists>p. p \<in> set fs \<and> \<not> is_list (snd p) \<and> checked_terms fs = Inl (wrong_filter_format (fst p))"
proof (induction fs)
  case Nil
  then show ?case by simp
next
  case (Cons a fs)
  show ?case
  proof (cases "is_list (snd a)")
    case False
    then show ?thesis by (intro exI [of _ a]) simp
  next
    case True
    with Cons.prems have "\<not> list_all (\<lambda>p. is_list (snd p)) fs" by simp
    from Cons.IH [OF this] obtain p where
      "p \<in> set fs" "\<not> is_list (snd p)" "checked_terms fs = Inl (wrong_filter_format (fst p))"
      by blast
    with True show ?thesis by (intro exI [of _ p]) simp
  qed
qed

text \<open>
  The bodies of the match-all and keyword-relevance shapes, written out, and the effect of
  the source-field exclusion on a body that has no \<^verbatim>\<open>_source\<close> entry yet.
\<close>

lemma match_all_body_eq:
  "match_all_body filters =
     Inr (PDict [(''query'', PDict [(''bool'', PDict
            ((''must'', PDict [(''match_all'', PDict [])]) #
             (if truthy filters then [(''filter'', terms_clauses (the filters))] else [])))])])"
  by (simp add: match_all_body_def set_item_def)

lemma default_body_eq:
  assumes "list_all (\<lambda>p. is_list (snd p)) (case filters of None \<Rightarrow> [] | Some fs \<Rightarrow> fs)"
  shows "default_body cfg query_text filters top_k =
     Inr (PDict
       [(''size'', PStr (str_int top_k)),
        (''query'', PDict [(''bool'', PDict
           ((''should'', PList [PDict [(''multi_match'',
               PDict [(''query'', PStr query_text), (''type'', PStr ''most_fields''),
                      (''fields'', PList (map PStr (search_fields cfg)))])]]) #
            (if truthy filters then [(''filter'', terms_clauses (the filters))] else [])))])])"
proof (cases "truthy filters")
  case False
  then show ?thesis by (simp add: default_body_def)
next
  case True
  then obtain fs where fs: "filters = Some fs" by (auto simp: truthy_def split: option.splits)
  with assms have "checked_terms fs = Inr (map (\<lambda>p. PDict [(''terms'', PDict [(fst p, snd p)])]) fs)"
    by (simp add: checked_terms_lists)
  with True fs show ?thesis
    by (simp add: default_body_def terms_clauses_def set_item_def)
qed

lemma add_excludes_eq:
  "''_source'' \<notin> fst ` set d \<Longrightarrow>
   add_excludes cfg (PDict d) =
     Inr (PDict (d @ (if truthy (excluded_meta_data cfg)
                      then [(''_source'', PDict [(''excludes'',
                              PList (map PStr (the (excluded_meta_data cfg))))])]
                      else [])))"
proof -
  have "k \<notin> fst ` set d \<Longrightarrow> dict_set d k v = d @ [(k, v)]" for k :: string and v :: pyval
    by (induction d) auto
  then show "''_source'' \<notin> fst ` set d \<Longrightarrow> ?thesis"
    by (simp add: add_excludes_def set_item_def)
qed

text \<open>
  In the keyword-relevance shape a filter value that is no list makes \<^verbatim>\<open>query\<close> fail with the
  format error, and no request is sent.
\<close>

lemma query_default_rejects_non_list:
  assumes "\<not> truthy custom_query" and "filters = Some fs"
    and "\<not> list_all (\<lambda>p. is_list (snd p)) fs"
  shows "\<exists>p. p \<in> set fs \<and> \<not> is_list (snd p) \<and>
           query lib cfg client (Some q) filters top_k custom_query index_arg =
             ([], Inl (wrong_filter_format (fst p)))"
proof -
  from assms(3) have ne: "fs \<noteq> []" by auto
  from checked_terms_rejects [OF assms(3)] obtain p where
    p: "p \<in> set fs" "\<not> is_list (snd p)" "checked_terms fs = Inl (wrong_filter_format (fst p))"
    by blast
  have "query lib cfg client (Some q) filters top_k custom_query index_arg =
          ([], Inl (wrong_filter_format (fst p)))"
    using assms(1,2) ne p(3)
    by (simp add: query_def query_body_def default_body_def truthy_def Let_def)
  with p show ?thesis by blast
qed

text \<open>
  Claim C1 says that a filter value that is no list makes every query shape, and
  \<^verbatim>\<open>query_by_embedding\<close>, fail with the format error before a search request is sent. The
  match-all shape has no such check: with no query text and the filters \<^verbatim>\<open>{"year": 2020}\<close> the
  store sends the search request, with the number where the list of allowed values belongs,
  and returns the converted hits.
\<close>

theorem query_match_all_unchecked_filter:
  "query lib default_config client None (Some [(''year'', PInt 2020)]) 10 None None =
     ([Search ''document''
         (PDict [(''query'', PDict [(''bool'', PDict
            [(''must'', PDict [(''match_all'', PDict [])]),
             (''filter'', PList [PDict [(''terms'', PDict [(''year'', PInt 2020)])]])])])])
         None],
      Inr (map (\<lambda>hit. convert_es_hit_to_document default_config hit 0)
             (search_hits client ''document''
                (PDict [(''query'', PDict [(''bool'', PDict
                   [(''must'', PDict [(''match_all'', PDict [])]),
                    (''filter'', PList [PDict [(''terms'', PDict [(''year'', PInt 2020)])]])])])]))))"
  by (simp add: query_def query_body_def match_all_body_def terms_clauses_def truthy_def
      add_excludes_def default_config_def set_item_def Let_def)

section \<open>Floating-point sums\<close>

text \<open>
  Within one binade the rounding is to a multiple of the spacing of that binade.
\<close>

lemma double_round_binade:
  assumes "2 powr of_int k \<le> \<bar>x\<bar>" and "\<bar>x\<bar> < 2 powr of_int (k + 1)" and "- 1022 \<le> k"
  shows "double_round x =
           of_int (round_half_even (x / 2 powr of_int (k - 52))) * 2 powr of_int (k - 52)"
proof -
  have "(0::real) < 2 powr of_int k"
    by simp
  from this assms(1) have pos: "0 < \<bar>x\<bar>"
    by (rule less_le_trans)
  then have nz: "x \<noteq> 0"
    by simp
  have "\<lfloor>log 2 \<bar>x\<bar>\<rfloor> = k"
    using pos assms(1,2) by (simp add: floor_log_eq_powr_iff)
  with nz assms(3) show ?thesis
    by (simp add: double_round_def Let_def max_def)
qed




lemma double_round_minus_1: "double_round (- 1) = - 1"
  using double_round_binade [of 0 "- 1"] by (simp add: round_half_even_def powr_minus Let_def)

text \<open>
  The float nearest to 0.3 is \<open>5404319552844595 / 2 ^ 54\<close>. Its sum with -1 lies halfway
  between two floats and is rounded to the one with the even significand, as
  \<^verbatim>\<open>0.3 + (-1)\<close> is in Python: \<^verbatim>\<open>-0.7\<close>, that is \<open>- 3152519739159347 / 2 ^ 52\<close>.
\<close>

lemma py_float_add_int_tie:
  "py_float_add_int (5404319552844595 / 2 ^ 54) (- 1) = - (3152519739159347 / 2 ^ 52)"
proof -
  let ?x = "5404319552844595 / 2 ^ 54 + (- 1 :: real)"
  have "double_round ?x =
          of_int (round_half_even (?x / 2 powr of_int (- 1 - 52))) * 2 powr of_int (- 1 - 52)"
    by (rule double_round_binade) (simp_all add: powr_minus)
  also have "?x / 2 powr of_int (- 1 - 52) = - (12610078956637389 / 2)"
    by (simp add: powr_minus)
  also have "round_half_even (- (12610078956637389 / 2)) = - 6305039478318694"
  proof -
    have f: "\<lfloor>- (12610078956637389 / 2 :: real)\<rfloor> = - 6305039478318695"
      by (simp add: floor_eq_iff)
    show ?thesis
      unfolding round_half_even_def Let_def f by simp
  qed
  finally have "double_round ?x = - (3152519739159347 / 2 ^ 52)"
    by (simp add: powr_minus)
  then show ?thesis
    by (simp add: py_float_add_int_def double_round_minus_1)
qed



section \<open>Scores of converted hits\<close>






section \<open>Bulk records of documents\<close>

lemma unpack_to_dict:
  "dict_update [(''_op_type'', PStr ''create''), (''_index'', PStr idx)] (to_dict d) =
     (''_op_type'', PStr ''create'') # (''_index'', PStr idx) # to_dict d"
  by (simp add: dict_update_def to_dict_def)

lemma document_to_index_flat:
  assumes "doc_meta d = PDict m \<or> doc_meta d = PNone \<and> m = []"
  shows "document_to_index idx d =
     Inr (dict_del (dict_update
       ((''_op_type'', PStr ''create'') # (''_index'', PStr idx) #
        filter (\<lambda>p. snd p \<noteq> PNone)
          [(''text'', doc_text d), (''meta'', doc_meta d), (''embedding'', doc_embedding d),
           (''question'', doc_question d), (''tags'', doc_tags d)] @
        [(''_id'', PStr (doc_id d))]) m) ''meta'')"
proof -
  let ?qs = "(''query_score'', (case doc_query_score d of None \<Rightarrow> PNone | Some s \<Rightarrow> PFloat s))"
  let ?top = "filter (\<lambda>p. snd p \<noteq> PNone)
          [(''text'', doc_text d), (''meta'', doc_meta d), (''embedding'', doc_embedding d),
           (''question'', doc_question d), (''tags'', doc_tags d)]"
  let ?b = "(''_op_type'', PStr ''create'') # (''_index'', PStr idx) # ?top @
            [(''_id'', PStr (doc_id d))]"
  have d1: "dict_set (dict_del ((''_op_type'', PStr ''create'') # (''_index'', PStr idx) # to_dict d)
              ''id'') ''_id'' (PStr (doc_id d)) =
            [(''_op_type'', PStr ''create''), (''_index'', PStr idx), (''text'', doc_text d),
             (''meta'', doc_meta d), (''embedding'', doc_embedding d),
             (''question'', doc_question d), (''tags'', doc_tags d), ?qs,
             (''_id'', PStr (doc_id d))]"
    by (simp add: to_dict_def dict_del_def)
  have i: "map_of ((''_op_type'', PStr ''create'') # (''_index'', PStr idx) # to_dict d) ''id'' =
             Some (PStr (doc_id d))"
    by (simp add: to_dict_def)
  have d3: "filter (\<lambda>p. snd p \<noteq> PNone)
              (dict_del
                [(''_op_type'', PStr ''create''), (''_index'', PStr idx), (''text'', doc_text d),
                 (''meta'', doc_meta d), (''embedding'', doc_embedding d),
                 (''question'', doc_question d), (''tags'', doc_tags d), ?qs,
                 (''_id'', PStr (doc_id d))] ''query_score'') = ?b"
    by (simp add: dict_del_def)
  have step: "document_to_index idx d =
          (case map_of ?b ''meta'' of
             None \<Rightarrow> Inr ?b
           | Some (PDict m) \<Rightarrow> Inr (dict_del (dict_update ?b m) ''meta'')
           | Some other \<Rightarrow> Inl AttributeError)"
    unfolding document_to_index_def unpack_to_dict Let_def i option.case py_str.simps d1 d3
    by (rule refl)
  from assms show ?thesis
  proof
    assume a: "doc_meta d = PDict m"
    then have "map_of ?b ''meta'' = Some (PDict m)"
      by simp
    then show ?thesis
      unfolding step by simp
  next
    assume a: "doc_meta d = PNone \<and> m = []"
    then have keys: "''meta'' \<notin> fst ` set ?b"
      by auto
    from keys have "map_of ?b ''meta'' = None"
      using map_of_eq_None_iff [of ?b "''meta''"] by blast
    moreover have "dict_del ?b ''meta'' = ?b"
      unfolding dict_del_def using keys by (intro filter_True) force
    ultimately show ?thesis
      unfolding step using a by (simp add: dict_update_def)
  qed
qed

text \<open>
  Claim C3 says that the bulk record of every document has no attribute whose value is
  absent, next to the operation type, the identity field, the absence of
  \<^verbatim>\<open>query_score\<close> and the hoisted entries of meta. The record drops absent values before it
  copies the entries of meta to the top level, so an absent value inside meta reaches the
  record. This needs no unusual caller: the document that \<^verbatim>\<open>_convert_es_hit_to_document\<close>
  makes of a hit without a name field has the meta entry \<^verbatim>\<open>"name": None\<close>, and written back,
  its record carries that entry.
\<close>

theorem document_to_index_keeps_absent_meta_value:
  "document_to_index ''document''
     (convert_es_hit_to_document default_config
        \<lparr>hit_id = ''1'', hit_score = None, hit_source = [(''text'', PStr ''t'')]\<rparr> 0) =
     Inr [(''_op_type'', PStr ''create''), (''_index'', PStr ''document''),
          (''text'', PStr ''t''), (''_id'', PStr ''1''), (''name'', PNone)]"
  by (simp add: document_to_index_def convert_es_hit_to_document_def default_config_def
      to_dict_def dict_update_def dict_del_def py_get_def Let_def)

text \<open>
  For a document whose meta (a mapping, or absent) holds no absent value and no entry under
  a key the record uses itself, the record is as the five parts of the claim say: the
  operation type \<^verbatim>\<open>create\<close>, no \<^verbatim>\<open>id\<close> and the id under \<^verbatim>\<open>_id\<close>, no \<^verbatim>\<open>query_score\<close>, no absent
  value, no \<^verbatim>\<open>meta\<close> and every entry of meta.
\<close>

lemma document_to_index_clean_meta:
  assumes "doc_meta d = PDict m \<or> doc_meta d = PNone \<and> m = []"
    and "distinct (map fst m)"
    and "fst ` set m \<inter> {''_op_type'', ''id'', ''_id'', ''query_score'', ''meta''} = {}"
    and "PNone \<notin> snd ` set m"
  shows "\<exists>r. document_to_index idx d = Inr r \<and>
           map_of r ''_op_type'' = Some (PStr ''create'') \<and>
           map_of r ''id'' = None \<and>
           map_of r ''_id'' = Some (PStr (doc_id d)) \<and>
           map_of r ''query_score'' = None \<and>
           PNone \<notin> snd ` set r \<and>
           map_of r ''meta'' = None \<and>
           (\<forall>p \<in> set m. map_of r (fst p) = Some (snd p))"
proof -
  define top where "top = filter (\<lambda>p. snd p \<noteq> PNone)
          [(''text'', doc_text d), (''meta'', doc_meta d), (''embedding'', doc_embedding d),
           (''question'', doc_question d), (''tags'', doc_tags d)]"
  define b where "b = (''_op_type'', PStr ''create'') # (''_index'', PStr idx) # top @
            [(''_id'', PStr (doc_id d))]"
  define r where "r = dict_del (dict_update b m) ''meta''"
  have res: "document_to_index idx d = Inr r"
    unfolding r_def b_def top_def using assms(1) by (rule document_to_index_flat)
  have look: "map_of r k = (if k = ''meta'' then None else (map_of b ++ map_of (rev m)) k)" for k
    by (simp add: r_def map_of_dict_del map_of_dict_update)
  have absent: "k \<notin> fst ` set m \<Longrightarrow> map_of (rev m) k = None" for k
    by (simp add: map_of_eq_None_iff)
  have top_keys: "fst ` set top \<subseteq> {''text'', ''meta'', ''embedding'', ''question'', ''tags''}"
    by (auto simp: top_def)
  have top_none: "k \<notin> {''text'', ''meta'', ''embedding'', ''question'', ''tags''} \<Longrightarrow>
                  map_of top k = None" for k
    using top_keys by (meson map_of_eq_None_iff subsetD)
  have b_op: "map_of b ''_op_type'' = Some (PStr ''create'')"
    by (simp add: b_def)
  have b_id: "map_of b ''id'' = None"
    using top_none [of "''id''"] by (simp add: b_def map_add_def)
  have b_uid: "map_of b ''_id'' = Some (PStr (doc_id d))"
    using top_none [of "''_id''"] by (simp add: b_def map_add_def)
  have b_qs: "map_of b ''query_score'' = None"
    using top_none [of "''query_score''"] by (simp add: b_def map_add_def)
  have p1: "''_op_type'' \<notin> fst ` set m \<longrightarrow> map_of r ''_op_type'' = Some (PStr ''create'')"
    using b_op absent [of "''_op_type''"] by (simp add: look map_add_def)
  have p2: "''id'' \<notin> fst ` set m \<longrightarrow> map_of r ''id'' = None"
    using b_id absent [of "''id''"] by (simp add: look map_add_def)
  have p3: "''_id'' \<notin> fst ` set m \<longrightarrow> map_of r ''_id'' = Some (PStr (doc_id d))"
    using b_uid absent [of "''_id''"] by (simp add: look map_add_def)
  have p4: "''query_score'' \<notin> fst ` set m \<longrightarrow> map_of r ''query_score'' = None"
    using b_qs absent [of "''query_score''"] by (simp add: look map_add_def)
  have vals_b: "PNone \<notin> snd ` set b"
    by (auto simp: b_def top_def)
  have "set r \<subseteq> set b \<union> set m"
    using set_dict_update [of b m] by (auto simp: r_def dict_del_def)
  then have "snd ` set r \<subseteq> snd ` set b \<union> snd ` set m"
    by blast
  with vals_b have p5: "PNone \<notin> snd ` set m \<longrightarrow> PNone \<notin> snd ` set r"
    by blast
  have p6: "map_of r ''meta'' = None"
    by (simp add: look)
  have p7: "distinct (map fst m) \<longrightarrow>
              (\<forall>p \<in> set m. fst p \<noteq> ''meta'' \<longrightarrow> map_of r (fst p) = Some (snd p))"
  proof (intro impI ballI)
    fix p
    assume dm: "distinct (map fst m)" and pm: "p \<in> set m" and ne: "fst p \<noteq> ''meta''"
    from dm pm have "map_of m (fst p) = Some (snd p)"
      by (intro map_of_is_SomeI) simp_all
    with dm have "map_of (rev m) (fst p) = Some (snd p)"
      by (simp add: map_of_rev_distinct)
    with ne show "map_of r (fst p) = Some (snd p)"
      by (simp add: look map_add_def)
  qed
  from assms(3) have k: "''_op_type'' \<notin> fst ` set m" "''id'' \<notin> fst ` set m"
    "''_id'' \<notin> fst ` set m" "''query_score'' \<notin> fst ` set m" "''meta'' \<notin> fst ` set m"
    by auto
  have p8: "\<forall>p \<in> set m. map_of r (fst p) = Some (snd p)"
  proof
    fix p
    assume pm: "p \<in> set m"
    with k(5) have "fst p \<noteq> ''meta''"
      by force
    with p7 assms(2) pm show "map_of r (fst p) = Some (snd p)"
      by blast
  qed
  from res p1 p2 p3 p4 p5 p6 p8 k assms(4) show ?thesis
    by blast
qed


section \<open>Custom query templates\<close>

lemma map_of_map_values:
  "map_of (map (\<lambda>p. (fst p, f (snd p))) xs) k = map_option f (map_of xs k)"
  by (induction xs) auto

text \<open>
  The mapping handed to the template, when no filter has the key \<^verbatim>\<open>question\<close>: the query text
  under \<^verbatim>\<open>question\<close> and the JSON encoding of its values under every filter key.
\<close>

lemma substitutions_map:
  assumes "distinct (map fst fs)" and "''question'' \<notin> fst ` set fs"
  shows "map_of (substitutions lib q (Some fs)) =
           (\<lambda>k. if k = ''question'' then Some q else map_option (json_dumps lib) (map_of fs k))"
proof (rule ext)
  fix k
  let ?items = "map (\<lambda>p. (fst p, json_dumps lib (snd p))) fs"
  have keys: "map fst ?items = map fst fs"
    by (simp add: comp_def)
  have di: "distinct (map fst ?items)"
    unfolding keys by (rule assms(1))
  have nq: "map_of fs ''question'' = None"
    using assms(2) by (simp add: map_of_eq_None_iff)
  have s: "map_of (substitutions lib q (Some fs)) = [''question'' \<mapsto> q] ++ map_of ?items"
  proof (cases "fs = []")
    case True
    then show ?thesis by (simp add: substitutions_def truthy_def)
  next
    case False
    with di show ?thesis
      by (simp add: substitutions_def truthy_def map_of_dict_update map_of_rev_distinct)
  qed
  show "map_of (substitutions lib q (Some fs)) k =
          (if k = ''question'' then Some q else map_option (json_dumps lib) (map_of fs k))"
    using nq by (simp add: s map_add_def map_of_map_values split: option.splits)
qed

text \<open>
  Claim C4 says that the text placeholder of a custom query is replaced by the raw query
  string and every filter-key placeholder by the JSON encoding of the filter's values. The
  store enters the query text under \<^verbatim>\<open>question\<close> and then every filter under its key into
  one mapping, so a filter on a field called \<^verbatim>\<open>question\<close> takes the place of the query text:
  with the query text \<^verbatim>\<open>cats\<close> and the filter \<^verbatim>\<open>{"question": [2020]}\<close> the body sent to the
  engine asks for the text \<^verbatim>\<open>[2020]\<close>.
\<close>

theorem custom_query_filter_clash:
  "query sample_lib default_config sample_client (Some ''cats'')
     (Some [(''question'', PList [PInt 2020])]) 10 (Some sample_text_template) None =
     ([Search ''document''
         (PDict [(''query'', PDict [(''match'', PDict [(''text'', PStr ''[2020]'')])]),
                 (''size'', PStr ''10'')]) None],
      Inr (map (\<lambda>hit. convert_es_hit_to_document default_config hit 0) sample_hits))"
  by (simp add: query_def query_body_def custom_body_def substitutions_def dict_update_def
      truthy_def sample_lib_def sample_text_template_def sample_template_def
      sample_query_json_def set_item_def
      add_excludes_def default_config_def sample_client_def str_int_def digit_char_def Let_def)

text \<open>
  The same for every library: the entry of the query text is gone from the mapping, and the
  call does not depend on the query text.
\<close>

lemma custom_query_filter_named_question:
  "substitutions lib ''cats'' (Some [(''question'', PList [PStr ''x''])]) =
     [(''question'', json_dumps lib (PList [PStr ''x'']))] \<and>
   query lib cfg client (Some ''cats'') (Some [(''question'', PList [PStr ''x''])]) 10
     (Some ''{\"query\": {\"match\": {\"text\": \"${question}\"}}}'') None =
   query lib cfg client (Some ''dogs'') (Some [(''question'', PList [PStr ''x''])]) 10
     (Some ''{\"query\": {\"match\": {\"text\": \"${question}\"}}}'') None"
  by (simp add: substitutions_def query_def query_body_def custom_body_def truthy_def
      dict_update_def)

text \<open>
  With filters none of which has the key \<^verbatim>\<open>question\<close> the call does what the claim says: the
  template is substituted with the query text for \<^verbatim>\<open>question\<close> and the JSON encoding of its
  values for every filter key, the result is parsed, \<^verbatim>\<open>size\<close> of the parsed body is set to
  \<^verbatim>\<open>str(top_k)\<close>, the source-field exclusion is added when it is configured, and this body is
  the one search request sent.
\<close>

lemma custom_query_body:
  assumes "truthy custom_query" and "distinct (map fst fs)" and "''question'' \<notin> fst ` set fs"
  shows "\<exists>subs.
           map_of subs =
             (\<lambda>k. if k = ''question'' then Some q
                  else map_option (json_dumps lib) (map_of fs k)) \<and>
           query lib cfg client (Some q) (Some fs) top_k custom_query index_arg =
             (case template_substitute lib (the custom_query) subs of
                Inl e \<Rightarrow> ([], Inl e)
              | Inr custom_query_json \<Rightarrow>
                  (case json_loads lib custom_query_json of
                     Inl e \<Rightarrow> ([], Inl e)
                   | Inr parsed \<Rightarrow>
                       (case set_item parsed ''size'' (PStr (str_int top_k)) of
                          Inl e \<Rightarrow> ([], Inl e)
                        | Inr sized \<Rightarrow>
                            (case add_excludes cfg sized of
                               Inl e \<Rightarrow> ([], Inl e)
                             | Inr body \<Rightarrow>
                                 ([Search (case index_arg of None \<Rightarrow> index cfg | Some i \<Rightarrow> i)
                                     body None],
                                  Inr (map (\<lambda>hit. convert_es_hit_to_document cfg hit 0)
                                         (search_hits client
                                            (case index_arg of None \<Rightarrow> index cfg | Some i \<Rightarrow> i)
                                            body)))))))"
proof -
  have m: "map_of (substitutions lib q (Some fs)) =
             (\<lambda>k. if k = ''question'' then Some q
                  else map_option (json_dumps lib) (map_of fs k))"
    using assms(2,3) by (rule substitutions_map)
  have "query lib cfg client (Some q) (Some fs) top_k custom_query index_arg =
             (case template_substitute lib (the custom_query) (substitutions lib q (Some fs)) of
                Inl e \<Rightarrow> ([], Inl e)
              | Inr custom_query_json \<Rightarrow>
                  (case json_loads lib custom_query_json of
                     Inl e \<Rightarrow> ([], Inl e)
                   | Inr parsed \<Rightarrow>
                       (case set_item parsed ''size'' (PStr (str_int top_k)) of
                          Inl e \<Rightarrow> ([], Inl e)
                        | Inr sized \<Rightarrow>
                            (case add_excludes cfg sized of
                               Inl e \<Rightarrow> ([], Inl e)
                             | Inr body \<Rightarrow>
                                 ([Search (case index_arg of None \<Rightarrow> index cfg | Some i \<Rightarrow> i)
                                     body None],
                                  Inr (map (\<lambda>hit. convert_es_hit_to_document cfg hit 0)
                                         (search_hits client
                                            (case index_arg of None \<Rightarrow> index cfg | Some i \<Rightarrow> i)
                                            body)))))))"
    using assms(1)
    by (simp add: query_def query_body_def custom_body_def Let_def split: sum.splits)
  with m show ?thesis by blast
qed

text \<open>
  The example of the spec: the template with \<^verbatim>\<open>${question}\<close> and \<^verbatim>\<open>${year}\<close>, the query text
  \<^verbatim>\<open>cats\<close>, the filter \<^verbatim>\<open>{"year": [2020]}\<close> and \<^verbatim>\<open>top_k\<close> 10.
\<close>

lemma custom_query_body_example:
  "query sample_lib default_config sample_client (Some ''cats'')
     (Some [(''year'', PList [PInt 2020])]) 10 (Some sample_template) None =
     ([Search ''document''
         (PDict [(''query'', PDict [(''bool'', PDict
                    [(''must'', PDict [(''match'', PDict [(''text'', PStr ''cats'')])]),
                     (''filter'', PDict [(''terms'', PDict
                        [(''year'', PList [PInt 2020])])])])]),
                 (''size'', PStr ''10'')]) None],
      Inr (map (\<lambda>hit. convert_es_hit_to_document default_config hit 0) sample_hits))"
proof -
  have a1: "truthy (Some sample_template)"
    by (simp add: truthy_def sample_template_def)
  have a2: "distinct (map fst [(''year'', PList [PInt 2020])])"
    by simp
  have a3: "''question'' \<notin> fst ` set [(''year'', PList [PInt 2020])]"
    by simp
  from custom_query_body [OF a1 a2 a3, of "''cats''" sample_lib default_config sample_client 10 None]
  obtain subs where
    m: "map_of subs =
          (\<lambda>k. if k = ''question'' then Some ''cats''
               else map_option (json_dumps sample_lib) (map_of [(''year'', PList [PInt 2020])] k))"
    and q: "query sample_lib default_config sample_client (Some ''cats'')
              (Some [(''year'', PList [PInt 2020])]) 10 (Some sample_template) None =
             (case template_substitute sample_lib (the (Some sample_template)) subs of
                Inl e \<Rightarrow> ([], Inl e)
              | Inr custom_query_json \<Rightarrow>
                  (case json_loads sample_lib custom_query_json of
                     Inl e \<Rightarrow> ([], Inl e)
                   | Inr parsed \<Rightarrow>
                       (case set_item parsed ''size'' (PStr (str_int 10)) of
                          Inl e \<Rightarrow> ([], Inl e)
                        | Inr sized \<Rightarrow>
                            (case add_excludes default_config sized of
                               Inl e \<Rightarrow> ([], Inl e)
                             | Inr body \<Rightarrow>
                                 ([Search (case None of None \<Rightarrow> index default_config | Some i \<Rightarrow> i)
                                     body None],
                                  Inr (map (\<lambda>hit. convert_es_hit_to_document default_config hit 0)
                                         (search_hits sample_client
                                            (case None of None \<Rightarrow> index default_config | Some i \<Rightarrow> i)
                                            body)))))))"
    by blast
  have t: "template_substitute sample_lib sample_template subs = Inr sample_query_json"
    by (simp add: sample_lib_def m sample_query_json_def)
  have l: "json_loads sample_lib sample_query_json =
             Inr (PDict [(''query'', PDict [(''bool'', PDict
                    [(''must'', PDict [(''match'', PDict [(''text'', PStr ''cats'')])]),
                     (''filter'', PDict [(''terms'', PDict
                        [(''year'', PList [PInt 2020])])])])])])"
    by (simp add: sample_lib_def)
  show ?thesis
    unfolding q
    by (simp add: t l set_item_def add_excludes_def truthy_def default_config_def
        sample_client_def str_int_def digit_char_def)
qed

section \<open>Filters on the embedding path\<close>

lemma embedding_body_filters:
  "truthy filters \<Longrightarrow> embedding_body cfg query_emb filters top_k = Inl (KeyError ''bool'')"
  by (simp add: embedding_body_def)

lemma query_by_embedding_filters:
  assumes "truthy filters" and "truthy (embedding_field cfg)"
  shows "query_by_embedding cfg client query_emb filters top_k index_arg =
           ([], Inl (KeyError ''bool''))"
  using assms by (simp add: query_by_embedding_def embedding_body_filters)

text \<open>
  Claim C5 says that \<^verbatim>\<open>query_by_embedding\<close> adds one clause per filter to its query and sends
  the request. The body of this path has no \<^verbatim>\<open>bool\<close> entry under \<^verbatim>\<open>query\<close>, so the assignment
  of the filter clauses raises \<^verbatim>\<open>KeyError\<close>: with any filter at all the call fails before a
  request is sent.
\<close>

theorem query_by_embedding_filter_crash:
  "query_by_embedding default_config client [0.5, 0.25]
     (Some [(''year'', PList [PStr ''2020''])]) 10 None = ([], Inl (KeyError ''bool''))"
  by (rule query_by_embedding_filters) (simp_all add: truthy_def default_config_def)

section \<open>Parameters of bulk writes\<close>

text \<open>
  Every bulk request of \<^verbatim>\<open>write_documents\<close> and of \<^verbatim>\<open>write_labels\<close> has the request timeout 300
  and the refresh policy \<^verbatim>\<open>wait_for\<close>; every bulk request of \<^verbatim>\<open>update_embeddings\<close> has the
  timeout and no refresh policy.
\<close>

lemma write_documents_bulk:
  assumes "Bulk actions timeout refresh \<in> set (fst (write_documents cfg client documents index_arg))"
  shows "timeout = 300 \<and> refresh = Some ''wait_for''"
  using assms
  by (auto simp: write_documents_def create_document_index_def Let_def
      split: if_splits sum.splits)

lemma write_labels_bulk:
  assumes "Bulk actions timeout refresh \<in> set (fst (write_labels cfg client labels index_arg))"
  shows "timeout = 300 \<and> refresh = Some ''wait_for''"
  using assms
  by (auto simp: write_labels_def create_label_index_def Let_def split: if_splits)

lemma update_embeddings_bulk:
  assumes "Bulk actions timeout refresh \<in> set (fst (update_embeddings cfg client embed_passages index_arg))"
  shows "timeout = 300 \<and> refresh = None"
  using assms
  by (auto simp: update_embeddings_def get_all_documents_def get_all_documents_in_index_def
      match_all_body_def truthy_def Let_def split: if_splits list.splits)

text \<open>
  Claim C6 says that the embedding updates of \<^verbatim>\<open>update_embeddings\<close> carry the wait-for flag as
  the writes of documents and labels do. Its bulk request has the request timeout only: on an
  index with one document the request is sent without a refresh policy.
\<close>

theorem update_embeddings_bulk_without_refresh:
  "update_embeddings (default_config\<lparr>embedding_dim := 2\<rparr>)
     \<lparr>indices_exists = (\<lambda>i. True), search_hits = (\<lambda>i b. []),
      scan_hits = (\<lambda>i b. [\<lparr>hit_id = ''1'', hit_score = None,
                              hit_source = [(''text'', PStr ''t'')]\<rparr>])\<rparr>
     (\<lambda>passages. map (\<lambda>p. [0.5, 0.25]) passages) None =
     ([Scan ''document''
         (PDict [(''query'', PDict [(''bool'', PDict
            [(''must'', PDict [(''match_all'', PDict [])])])])]),
       Bulk [PDict [(''_op_type'', PStr ''update''), (''_index'', PStr ''document''),
                    (''_id'', PStr ''1''),
                    (''doc'', PDict [(''embedding'', PList [PFloat 0.5, PFloat 0.25])])]]
         300 None],
      Inr ())"
  by (simp add: update_embeddings_def get_all_documents_def get_all_documents_in_index_def
      match_all_body_def truthy_def default_config_def embedding_update_def
      convert_es_hit_to_document_def Let_def)

section \<open>Embedding refresh with a wrong dimension\<close>

lemma match_all_body_None: "match_all_body None =
   Inr (PDict [(''query'', PDict [(''bool'', PDict [(''must'', PDict [(''match_all'', PDict [])])])])])"
  by (simp add: match_all_body_def truthy_def)

lemma get_all_documents_no_filters:
  "get_all_documents cfg client index_arg None =
     ([Scan (case index_arg of None \<Rightarrow> index cfg | Some i \<Rightarrow> i)
         (PDict [(''query'', PDict [(''bool'', PDict [(''must'', PDict [(''match_all'', PDict [])])])])])],
      Inr (map (\<lambda>hit. convert_es_hit_to_document cfg hit 0)
             (scan_hits client (case index_arg of None \<Rightarrow> index cfg | Some i \<Rightarrow> i)
                (PDict [(''query'', PDict [(''bool'', PDict [(''must'', PDict [(''match_all'', PDict [])])])])]))))"
  by (simp add: get_all_documents_def get_all_documents_in_index_def match_all_body_None Let_def)

text \<open>
  Claim C7: when the embedding field is configured, the retriever returns one vector per
  document and the length of the first vector differs from the configured dimension,
  \<^verbatim>\<open>update_embeddings\<close> fails with a \<^verbatim>\<open>RuntimeError\<close> whose message holds both the dimension of
  the model and the configured one, and the only request sent is the scan that fetched the
  documents: no bulk update.
\<close>

theorem update_embeddings_dim_mismatch:
  assumes "truthy (embedding_field cfg)"
    and "get_all_documents cfg client index_arg None = (calls, Inr docs)"
    and "embed_passages (map doc_text docs) = e0 # rest"
    and "length docs = length (e0 # rest)"
    and "int (length e0) \<noteq> embedding_dim cfg"
  shows "update_embeddings cfg client embed_passages index_arg =
           (calls, Inl (RuntimeError
              (''Embedding dim. of model ('' @ str_int (int (length e0)) @
               '') doesn't match embedding dim. in documentstore ('' @
               str_int (embedding_dim cfg) @
               '').Specify the arg `embedding_dim` when initializing ElasticsearchDocumentStore()''))) \<and>
         calls = [Scan (case index_arg of None \<Rightarrow> index cfg | Some i \<Rightarrow> i)
                    (PDict [(''query'', PDict [(''bool'', PDict
                       [(''must'', PDict [(''match_all'', PDict [])])])])])]"
proof -
  let ?idx = "case index_arg of None \<Rightarrow> index cfg | Some i \<Rightarrow> i"
  have same: "get_all_documents cfg client (Some ?idx) None = get_all_documents cfg client index_arg None"
    by (simp add: get_all_documents_no_filters)
  have calls: "calls = [Scan ?idx
                    (PDict [(''query'', PDict [(''bool'', PDict
                       [(''must'', PDict [(''match_all'', PDict [])])])])])]"
    using assms(2) by (simp add: get_all_documents_no_filters)
  have "update_embeddings cfg client embed_passages index_arg =
          (calls, Inl (dim_mismatch (length e0) (embedding_dim cfg)))"
    using assms same by (simp add: update_embeddings_def Let_def)
  then show ?thesis
    using calls by (simp add: dim_mismatch_def)
qed

text \<open>
  The example of the spec: a store configured for 128 dimensions and a retriever that returns
  vectors of length 64.
\<close>

theorem update_embeddings_dim_mismatch_witness:
  "update_embeddings (default_config\<lparr>embedding_dim := 128\<rparr>) sample_client
     (\<lambda>passages. map (\<lambda>p. replicate 64 0) passages) None =
     ([Scan ''document''
         (PDict [(''query'', PDict [(''bool'', PDict
            [(''must'', PDict [(''match_all'', PDict [])])])])])],
      Inl (RuntimeError
         (''Embedding dim. of model (64) doesn't match embedding dim. in documentstore (128).'' @
          ''Specify the arg `embedding_dim` when initializing ElasticsearchDocumentStore()'')))"
proof -
  let ?cfg = "default_config\<lparr>embedding_dim := 128\<rparr>"
  let ?docs = "map (\<lambda>hit. convert_es_hit_to_document ?cfg hit 0) sample_hits"
  let ?calls = "[Scan ''document''
         (PDict [(''query'', PDict [(''bool'', PDict
            [(''must'', PDict [(''match_all'', PDict [])])])])])]"
  have a1: "truthy (embedding_field ?cfg)"
    by (simp add: truthy_def default_config_def)
  have a2: "get_all_documents ?cfg sample_client None None = (?calls, Inr ?docs)"
    by (simp add: get_all_documents_no_filters default_config_def sample_client_def)
  have a3: "(\<lambda>passages. map (\<lambda>p. replicate 64 (0::real)) passages) (map doc_text ?docs) =
              replicate 64 0 # [replicate 64 0, replicate 64 0]"
    by (simp add: sample_hits_def)
  have a4: "length ?docs = length (replicate 64 (0::real) # [replicate 64 0, replicate 64 0])"
    by (simp add: sample_hits_def)
  have a5: "int (length (replicate 64 (0::real))) \<noteq> embedding_dim ?cfg"
    by (simp add: default_config_def)
  have s64: "str_int 64 = ''64''" and s128: "str_int 128 = ''128''"
    by (simp_all add: str_int_def digit_char_def)
  from update_embeddings_dim_mismatch
    [where cfg = ?cfg and client = sample_client and index_arg = None and calls = ?calls
       and docs = ?docs and embed_passages = "\<lambda>passages. map (\<lambda>p. replicate 64 0) passages"
       and ?e0.0 = "replicate 64 0" and rest = "[replicate 64 0, replicate 64 0]",
     OF a1 a2 a3 a4 a5]
  show ?thesis
    by (simp add: s64 s128 default_config_def)
qed

section \<open>Selection of the query shape\<close>

text \<open>
  Claim C8: without a query text the body is the match-all body with the filter clauses,
  whether or not a custom query is given; with a query text and a custom query (present and
  not empty) the body is the parsed template with \<^verbatim>\<open>size\<close> set to the decimal string of
  \<^verbatim>\<open>top_k\<close>; with a query text and no custom query, and filters that are lists, the body is the
  multi-match query over the search fields with \<^verbatim>\<open>size\<close> set to the decimal string of
  \<^verbatim>\<open>top_k\<close>. In every shape the source-field exclusion is added when it is configured.
\<close>

theorem query_shape_selection:
  "(query_arg = None \<longrightarrow>
      query_body lib cfg query_arg filters top_k custom_query =
        Inr (PDict
          ((''query'', PDict [(''bool'', PDict
              ((''must'', PDict [(''match_all'', PDict [])]) #
               (if truthy filters then [(''filter'', terms_clauses (the filters))] else [])))]) #
           (if truthy (excluded_meta_data cfg)
            then [(''_source'', PDict [(''excludes'',
                    PList (map PStr (the (excluded_meta_data cfg))))])]
            else [])))) \<and>
   (query_arg = Some q \<and> truthy custom_query \<longrightarrow>
      query_body lib cfg query_arg filters top_k custom_query =
        (case template_substitute lib (the custom_query) (substitutions lib q filters) of
           Inl e \<Rightarrow> Inl e
         | Inr custom_query_json \<Rightarrow>
             (case json_loads lib custom_query_json of
                Inl e \<Rightarrow> Inl e
              | Inr parsed \<Rightarrow>
                  (case set_item parsed ''size'' (PStr (str_int top_k)) of
                     Inl e \<Rightarrow> Inl e
                   | Inr body \<Rightarrow> add_excludes cfg body)))) \<and>
   (query_arg = Some q \<and> \<not> truthy custom_query \<and>
    list_all (\<lambda>p. is_list (snd p)) (case filters of None \<Rightarrow> [] | Some fs \<Rightarrow> fs) \<longrightarrow>
      query_body lib cfg query_arg filters top_k custom_query =
        Inr (PDict
          ([(''size'', PStr (str_int top_k)),
            (''query'', PDict [(''bool'', PDict
               ((''should'', PList [PDict [(''multi_match'',
                   PDict [(''query'', PStr q), (''type'', PStr ''most_fields''),
                          (''fields'', PList (map PStr (search_fields cfg)))])]]) #
                (if truthy filters then [(''filter'', terms_clauses (the filters))] else [])))])] @
           (if truthy (excluded_meta_data cfg)
            then [(''_source'', PDict [(''excludes'',
                    PList (map PStr (the (excluded_meta_data cfg))))])]
            else []))))"
proof (intro conjI impI)
  assume "query_arg = None"
  then show "query_body lib cfg query_arg filters top_k custom_query =
        Inr (PDict
          ((''query'', PDict [(''bool'', PDict
              ((''must'', PDict [(''match_all'', PDict [])]) #
               (if truthy filters then [(''filter'', terms_clauses (the filters))] else [])))]) #
           (if truthy (excluded_meta_data cfg)
            then [(''_source'', PDict [(''excludes'',
                    PList (map PStr (the (excluded_meta_data cfg))))])]
            else [])))"
    by (simp add: query_body_def match_all_body_eq add_excludes_eq)
next
  assume "query_arg = Some q \<and> truthy custom_query"
  then show "query_body lib cfg query_arg filters top_k custom_query =
        (case template_substitute lib (the custom_query) (substitutions lib q filters) of
           Inl e \<Rightarrow> Inl e
         | Inr custom_query_json \<Rightarrow>
             (case json_loads lib custom_query_json of
                Inl e \<Rightarrow> Inl e
              | Inr parsed \<Rightarrow>
                  (case set_item parsed ''size'' (PStr (str_int top_k)) of
                     Inl e \<Rightarrow> Inl e
                   | Inr body \<Rightarrow> add_excludes cfg body)))"
    by (simp add: query_body_def custom_body_def split: sum.splits)
next
  assume a: "query_arg = Some q \<and> \<not> truthy custom_query \<and>
    list_all (\<lambda>p. is_list (snd p)) (case filters of None \<Rightarrow> [] | Some fs \<Rightarrow> fs)"
  then have "default_body cfg q filters top_k = 
     Inr (PDict
       [(''size'', PStr (str_int top_k)),
        (''query'', PDict [(''bool'', PDict
           ((''should'', PList [PDict [(''multi_match'',
               PDict [(''query'', PStr q), (''type'', PStr ''most_fields''),
                      (''fields'', PList (map PStr (search_fields cfg)))])]]) #
            (if truthy filters then [(''filter'', terms_clauses (the filters))] else [])))])])"
    by (intro default_body_eq) simp
  with a show "query_body lib cfg query_arg filters top_k custom_query =
        Inr (PDict
          ([(''size'', PStr (str_int top_k)),
            (''query'', PDict [(''bool'', PDict
               ((''should'', PList [PDict [(''multi_match'',
                   PDict [(''query'', PStr q), (''type'', PStr ''most_fields''),
                          (''fields'', PList (map PStr (search_fields cfg)))])]]) #
                (if truthy filters then [(''filter'', terms_clauses (the filters))] else [])))])] @
           (if truthy (excluded_meta_data cfg)
            then [(''_source'', PDict [(''excludes'',
                    PList (map PStr (the (excluded_meta_data cfg))))])]
            else [])))"
    by (simp add: query_body_def add_excludes_eq)
qed

text \<open>
  The three shapes on the example of the spec: the template is ignored without a query text,
  used with one, and the multi-match body is built when no template is given.
\<close>

theorem query_shape_selection_witness:
  "query_body sample_lib default_config None (Some [(''year'', PList [PInt 2020])]) 10
     (Some sample_template) =
     Inr (PDict [(''query'', PDict [(''bool'', PDict
            [(''must'', PDict [(''match_all'', PDict [])]),
             (''filter'', PList [PDict [(''terms'', PDict [(''year'', PList [PInt 2020])])]])])])]) \<and>
   query_body sample_lib default_config (Some ''cats'') (Some [(''year'', PList [PInt 2020])]) 10
     (Some sample_template) =
     Inr (PDict [(''query'', PDict [(''bool'', PDict
            [(''must'', PDict [(''match'', PDict [(''text'', PStr ''cats'')])]),
             (''filter'', PDict [(''terms'', PDict [(''year'', PList [PInt 2020])])])])]),
                 (''size'', PStr ''10'')]) \<and>
   query_body sample_lib default_config (Some ''cats'') (Some [(''year'', PList [PInt 2020])]) 10
     None =
     Inr (PDict [(''size'', PStr ''10''),
                 (''query'', PDict [(''bool'', PDict
                    [(''should'', PList [PDict [(''multi_match'',
                        PDict [(''query'', PStr ''cats''), (''type'', PStr ''most_fields''),
                               (''fields'', PList [PStr ''text''])])]]),
                     (''filter'', PList [PDict [(''terms'', PDict
                        [(''year'', PList [PInt 2020])])]])])])])"
  using
    query_shape_selection [of None sample_lib default_config
      "Some [(''year'', PList [PInt 2020])]" 10 "Some sample_template"]
    query_shape_selection [of "Some ''cats''" sample_lib default_config
      "Some [(''year'', PList [PInt 2020])]" 10 "Some sample_template" "''cats''"]
    query_shape_selection [of "Some ''cats''" sample_lib default_config
      "Some [(''year'', PList [PInt 2020])]" 10 None "''cats''"]
  by (simp add: truthy_def terms_clauses_def default_config_def substitutions_def
      dict_update_def sample_lib_def sample_template_def sample_query_json_def
      set_item_def add_excludes_def str_int_def digit_char_def)

section \<open>Meta data of converted hits\<close>

lemma convert_meta_lookup:
  "doc_meta (convert_es_hit_to_document cfg hit adj) =
     PDict (dict_set (dict_del
       (filter (\<lambda>p. fst p \<noteq> text_field cfg \<and> Some (fst p) \<noteq> faq_question_field cfg \<and>
                    Some (fst p) \<noteq> embedding_field cfg \<and> fst p \<noteq> ''tags'') (hit_source hit))
       (name_field cfg)) ''name''
       (py_get (filter (\<lambda>p. fst p \<noteq> text_field cfg \<and> Some (fst p) \<noteq> faq_question_field cfg \<and>
                    Some (fst p) \<noteq> embedding_field cfg \<and> fst p \<noteq> ''tags'') (hit_source hit))
          (Some (name_field cfg))))"
  by (simp add: convert_es_hit_to_document_def Let_def)

lemma renamed_lookup:
  "map_of (dict_set (dict_del (filter (\<lambda>p. P (fst p)) d) n) ''name''
             (py_get (filter (\<lambda>p. P (fst p)) d) (Some n))) k =
     (if k = ''name''
      then Some (if P n then (case map_of d n of None \<Rightarrow> PNone | Some v \<Rightarrow> v) else PNone)
      else if k = n \<or> \<not> P k then None else map_of d k)"
  by (simp add: map_of_dict_set map_of_dict_del py_get_def map_of_filter_keys)

text \<open>
  Claim C9 says that the meta mapping of a converted hit holds exactly the stored fields of
  the hit other than the text, question and embedding fields and \<^verbatim>\<open>tags\<close>, the name field
  renamed to \<^verbatim>\<open>name\<close>. A hit that stores a text only, and so has no field \<^verbatim>\<open>name\<close>, still gets
  the meta entry \<^verbatim>\<open>"name": None\<close>.
\<close>

theorem convert_hit_without_name_field:
  "doc_meta (convert_es_hit_to_document default_config
      \<lparr>hit_id = ''1'', hit_score = None, hit_source = [(''text'', PStr ''t'')]\<rparr> 0) =
     PDict [(''name'', PNone)] \<and>
   map_of [(''text'', PStr ''t'')] ''name'' = (None :: pyval option)"
  by (simp add: convert_es_hit_to_document_def default_config_def dict_del_def py_get_def Let_def)

text \<open>
  Claim C9, amended: the meta mapping always has the key \<^verbatim>\<open>name\<close>; it holds the value the hit
  stores under the name field, and \<^verbatim>\<open>None\<close> when the hit stores nothing there or the name
  field is one of the excluded fields. Apart from \<^verbatim>\<open>name\<close>, meta holds exactly the stored
  fields of the hit other than the name field, the text field, the question field, the
  embedding field and \<^verbatim>\<open>tags\<close>, with their values. Text, question, tags and embedding are
  the values stored under their fields, \<^verbatim>\<open>None\<close> when there is none.
\<close>

theorem convert_es_hit_meta:
  "\<exists>meta. doc_meta (convert_es_hit_to_document cfg hit adj) = PDict meta \<and>
     map_of meta =
       (\<lambda>k. if k = ''name''
            then Some (if name_field cfg = text_field cfg \<or>
                          Some (name_field cfg) = faq_question_field cfg \<or>
                          Some (name_field cfg) = embedding_field cfg \<or>
                          name_field cfg = ''tags''
                       then PNone
                       else (case map_of (hit_source hit) (name_field cfg) of
                               None \<Rightarrow> PNone
                             | Some v \<Rightarrow> v))
            else if k = name_field cfg \<or> k = text_field cfg \<or> Some k = faq_question_field cfg \<or>
                    Some k = embedding_field cfg \<or> k = ''tags''
            then None
            else map_of (hit_source hit) k) \<and>
     doc_text (convert_es_hit_to_document cfg hit adj) =
       (case map_of (hit_source hit) (text_field cfg) of None \<Rightarrow> PNone | Some v \<Rightarrow> v) \<and>
     doc_question (convert_es_hit_to_document cfg hit adj) =
       (case faq_question_field cfg of
          None \<Rightarrow> PNone
        | Some f \<Rightarrow> (case map_of (hit_source hit) f of None \<Rightarrow> PNone | Some v \<Rightarrow> v)) \<and>
     doc_tags (convert_es_hit_to_document cfg hit adj) =
       (case map_of (hit_source hit) ''tags'' of None \<Rightarrow> PNone | Some v \<Rightarrow> v) \<and>
     doc_embedding (convert_es_hit_to_document cfg hit adj) =
       (case embedding_field cfg of
          None \<Rightarrow> PNone
        | Some f \<Rightarrow> (case map_of (hit_source hit) f of None \<Rightarrow> PNone | Some v \<Rightarrow> v))"
proof -
  let ?d = "convert_es_hit_to_document cfg hit adj"
  let ?vis = "filter (\<lambda>p. fst p \<noteq> text_field cfg \<and> Some (fst p) \<noteq> faq_question_field cfg \<and>
                    Some (fst p) \<noteq> embedding_field cfg \<and> fst p \<noteq> ''tags'') (hit_source hit)"
  let ?meta = "dict_set (dict_del ?vis (name_field cfg)) ''name''
                 (py_get ?vis (Some (name_field cfg)))"
  have m: "doc_meta ?d = PDict ?meta"
    by (rule convert_meta_lookup)
  have l: "map_of ?meta k =
       (if k = ''name''
            then Some (if name_field cfg = text_field cfg \<or>
                          Some (name_field cfg) = faq_question_field cfg \<or>
                          Some (name_field cfg) = embedding_field cfg \<or>
                          name_field cfg = ''tags''
                       then PNone
                       else (case map_of (hit_source hit) (name_field cfg) of
                               None \<Rightarrow> PNone
                             | Some v \<Rightarrow> v))
            else if k = name_field cfg \<or> k = text_field cfg \<or> Some k = faq_question_field cfg \<or>
                    Some k = embedding_field cfg \<or> k = ''tags''
            then None
            else map_of (hit_source hit) k)" for k
  proof -
    let ?P = "\<lambda>k. k \<noteq> text_field cfg \<and> Some k \<noteq> faq_question_field cfg \<and>
                  Some k \<noteq> embedding_field cfg \<and> k \<noteq> ''tags''"
    have "map_of ?meta k =
      (if k = ''name''
       then Some (if ?P (name_field cfg)
                  then (case map_of (hit_source hit) (name_field cfg) of
                          None \<Rightarrow> PNone | Some v \<Rightarrow> v)
                  else PNone)
       else if k = name_field cfg \<or> \<not> ?P k then None else map_of (hit_source hit) k)"
      by (rule renamed_lookup [of ?P "hit_source hit" "name_field cfg" k])
    also have "\<dots> =
       (if k = ''name''
            then Some (if name_field cfg = text_field cfg \<or>
                          Some (name_field cfg) = faq_question_field cfg \<or>
                          Some (name_field cfg) = embedding_field cfg \<or>
                          name_field cfg = ''tags''
                       then PNone
                       else (case map_of (hit_source hit) (name_field cfg) of
                               None \<Rightarrow> PNone
                             | Some v \<Rightarrow> v))
            else if k = name_field cfg \<or> k = text_field cfg \<or> Some k = faq_question_field cfg \<or>
                    Some k = embedding_field cfg \<or> k = ''tags''
            then None
            else map_of (hit_source hit) k)"
      by (cases "?P (name_field cfg)"; cases "?P k") (simp_all only: if_True if_False, auto)
    finally show ?thesis .
  qed
  have t: "doc_text ?d =
       (case map_of (hit_source hit) (text_field cfg) of None \<Rightarrow> PNone | Some v \<Rightarrow> v)"
    by (simp add: convert_es_hit_to_document_def Let_def py_get_def)
  have q: "doc_question ?d =
       (case faq_question_field cfg of
          None \<Rightarrow> PNone
        | Some f \<Rightarrow> (case map_of (hit_source hit) f of None \<Rightarrow> PNone | Some v \<Rightarrow> v))"
    by (simp add: convert_es_hit_to_document_def Let_def py_get_def)
  have g: "doc_tags ?d =
       (case map_of (hit_source hit) ''tags'' of None \<Rightarrow> PNone | Some v \<Rightarrow> v)"
    by (simp add: convert_es_hit_to_document_def Let_def py_get_def)
  have e: "doc_embedding ?d =
       (case embedding_field cfg of
          None \<Rightarrow> PNone
        | Some f \<Rightarrow> (case map_of (hit_source hit) f of None \<Rightarrow> PNone | Some v \<Rightarrow> v))"
    by (simp add: convert_es_hit_to_document_def Let_def py_get_def)
  from l have "map_of ?meta = (\<lambda>k. if k = ''name''
            then Some (if name_field cfg = text_field cfg \<or>
                          Some (name_field cfg) = faq_question_field cfg \<or>
                          Some (name_field cfg) = embedding_field cfg \<or>
                          name_field cfg = ''tags''
                       then PNone
                       else (case map_of (hit_source hit) (name_field cfg) of
                               None \<Rightarrow> PNone
                             | Some v \<Rightarrow> v))
            else if k = name_field cfg \<or> k = text_field cfg \<or> Some k = faq_question_field cfg \<or>
                    Some k = embedding_field cfg \<or> k = ''tags''
            then None
            else map_of (hit_source hit) k)"
    by (rule ext)
  with m t q g e show ?thesis by blast
qed

text \<open>
  The first sample hit: its name and year are in meta, its text and embedding are not.
\<close>

theorem convert_es_hit_meta_witness:
  "\<exists>meta. doc_meta (convert_es_hit_to_document default_config (hd sample_hits) 0) = PDict meta \<and>
     map_of meta ''name'' = Some (PStr ''cats.txt'') \<and>
     map_of meta ''year'' = Some (PInt 2020) \<and>
     map_of meta ''text'' = None \<and>
     map_of meta ''embedding'' = None \<and>
     doc_text (convert_es_hit_to_document default_config (hd sample_hits) 0) = PStr ''cats purr'' \<and>
     doc_embedding (convert_es_hit_to_document default_config (hd sample_hits) 0) =
       PList [PFloat 1, PFloat 0]"
proof -
  from convert_es_hit_meta [of default_config "hd sample_hits" 0]
  obtain meta where
    m: "doc_meta (convert_es_hit_to_document default_config (hd sample_hits) 0) = PDict meta"
    and l: "map_of meta =
       (\<lambda>k. if k = ''name''
            then Some (if name_field default_config = text_field default_config \<or>
                          Some (name_field default_config) = faq_question_field default_config \<or>
                          Some (name_field default_config) = embedding_field default_config \<or>
                          name_field default_config = ''tags''
                       then PNone
                       else (case map_of (hit_source (hd sample_hits)) (name_field default_config) of
                               None \<Rightarrow> PNone
                             | Some v \<Rightarrow> v))
            else if k = name_field default_config \<or> k = text_field default_config \<or>
                    Some k = faq_question_field default_config \<or>
                    Some k = embedding_field default_config \<or> k = ''tags''
            then None
            else map_of (hit_source (hd sample_hits)) k)"
    and t: "doc_text (convert_es_hit_to_document default_config (hd sample_hits) 0) =
       (case map_of (hit_source (hd sample_hits)) (text_field default_config) of
          None \<Rightarrow> PNone | Some v \<Rightarrow> v)"
    and e: "doc_embedding (convert_es_hit_to_document default_config (hd sample_hits) 0) =
       (case embedding_field default_config of
          None \<Rightarrow> PNone
        | Some f \<Rightarrow> (case map_of (hit_source (hd sample_hits)) f of None \<Rightarrow> PNone | Some v \<Rightarrow> v))"
    by blast
  have 1: "map_of meta ''name'' = Some (PStr ''cats.txt'')"
    by (simp add: l default_config_def sample_hits_def)
  have 2: "map_of meta ''year'' = Some (PInt 2020)"
    by (simp add: l default_config_def sample_hits_def)
  have 3: "map_of meta ''text'' = None"
    by (simp add: l default_config_def sample_hits_def)
  have 4: "map_of meta ''embedding'' = None"
    by (simp add: l default_config_def sample_hits_def)
  have 5: "doc_text (convert_es_hit_to_document default_config (hd sample_hits) 0) =
             PStr ''cats purr''"
    using t by (simp add: default_config_def sample_hits_def)
  have 6: "doc_embedding (convert_es_hit_to_document default_config (hd sample_hits) 0) =
             PList [PFloat 1, PFloat 0]"
    using e by (simp add: default_config_def sample_hits_def)
  from m 1 2 3 4 5 6 show ?thesis by blast
qed

section \<open>The default index of label writes\<close>

lemma label_to_index_eq:
  "label_to_index index_arg l =
     (''_op_type'', PStr ''create'') #
     (''_index'', (case index_arg of None \<Rightarrow> PNone | Some i \<Rightarrow> PStr i)) # label_to_dict l"
  by (simp add: label_to_index_def dict_update_def label_to_dict_def)

text \<open>
  Claim C10: a call of \<^verbatim>\<open>write_labels\<close> that gives no index checks and, if need be, creates the
  index called \<^verbatim>\<open>label\<close> and writes every label record to it, whatever label index the
  configuration names.
\<close>

theorem write_labels_default_index:
  "fst (write_labels_default cfg client labels) =
     (if indices_exists client ''label''
      then [IndicesExists ''label'']
      else [IndicesExists ''label'', create_label_index ''label'']) @
     [Bulk (map (\<lambda>l. PDict ((''_op_type'', PStr ''create'') # (''_index'', PStr ''label'') #
                              label_to_dict l)) labels)
        300 (Some ''wait_for'')]"
  by (simp add: write_labels_default_def write_labels_def truthy_def label_to_index_eq)

text \<open>
  A store configured with the label index \<^verbatim>\<open>my_labels\<close> still writes to \<^verbatim>\<open>label\<close>.
\<close>

theorem write_labels_default_index_witness:
  "fst (write_labels_default (default_config\<lparr>label_index := ''my_labels''\<rparr>) sample_client
          [\<lparr>lbl_question = ''q'', lbl_answer = ''a'', lbl_is_correct_answer = True,
            lbl_is_correct_document = True, lbl_origin = ''gold'', lbl_document_id = ''1'',
            lbl_offset_start_in_doc = 0, lbl_no_answer = False, lbl_model_id = ''m'',
            lbl_type = ''t''\<rparr>]) =
     [IndicesExists ''label'', create_label_index ''label'',
      Bulk [PDict [(''_op_type'', PStr ''create''), (''_index'', PStr ''label''),
                   (''question'', PStr ''q''), (''answer'', PStr ''a''),
                   (''is_correct_answer'', PBool True), (''is_correct_document'', PBool True),
                   (''origin'', PStr ''gold''), (''document_id'', PStr ''1''),
                   (''offset_start_in_doc'', PInt 0), (''no_answer'', PBool False),
                   (''model_id'', PStr ''m''), (''type'', PStr ''t'')]]
        300 (Some ''wait_for'')]"
  using write_labels_default_index [of "default_config\<lparr>label_index := ''my_labels''\<rparr>"
      sample_client]
  by (simp add: sample_client_def label_to_dict_def)

end
